theory Spec2Isabelle
  imports Complex_Main "HOL-Library.Product_Lexorder" "HOL-Library.Multiset"
begin

section \<open>The persisted tables (database.py, init_db)\<close>

text \<open>
  The number-reservation lifecycle of the bot lives in three SQLite tables: \<open>numbers\<close>,
  \<open>number_requests\<close> and \<open>logs\<close>. A table is the list of its rows in rowid order. The
  INTEGER flags \<open>is_active\<close> and \<open>is_premium\<close> only ever receive 0 or 1 (schema defaults,
  \<open>1 if is_premium else 0\<close>, \<open>is_active = 0\<close>, \<open>is_active = 1\<close>) and are booleans here. A TEXT
  time stamp of the form \<open>YYYY-MM-DD HH:MM:SS\<close> is the number of whole seconds it denotes;
  a Python \<open>datetime\<close> is a number of microseconds.
\<close>

type_synonym datetime = int
type_synonym sql_timestamp = int

record number_row =
  num_id :: int
  num_country_id :: int
  num_number :: string
  num_platform :: string
  num_added_by :: int
  num_added_at :: sql_timestamp
  num_is_premium :: bool
  num_premium_pattern :: "string option"
  num_times_used :: int
  num_last_used :: "sql_timestamp option"
  num_is_active :: bool
  num_last_used_by :: "int option"

record request_row =
  req_id :: int
  req_user_id :: int
  req_number_id :: int
  req_api_request_id :: string
  req_status :: string
  req_expires_at :: sql_timestamp
  req_code :: "string option"
  req_requested_at :: sql_timestamp

record log_row =
  log_id :: int
  log_who :: int
  log_action_name :: string
  log_meta :: string
  log_created_at :: sql_timestamp

record database =
  numbers :: "number_row list"
  number_requests :: "request_row list"
  logs :: "log_row list"

section \<open>Python values used by the service\<close>

text \<open>Exceptions that can leave a method of the service or a handler.\<close>

datatype py_exception = DatabaseError | KeyError | NameError

text \<open>
  \<open>Database.execute\<close> runs one statement on the shared connection, then calls \<open>commit()\<close>,
  and re-raises whatever either step raises; nothing is rolled back. A call can so fail in
  two ways. The statement itself raises (an I/O error, a violated foreign key, ...) and has
  no effect: \<open>StatementError\<close>. Or the statement runs and \<open>commit()\<close> raises: \<open>CommitError\<close>;
  the change then stays in the open transaction of the connection, where every later query
  of the bot sees it and the next successful commit makes it permanent. The tables of the
  model are the tables as the shared connection sees them.

  Which call of an operation fails, and how, is an input of the model: \<open>Some (k, kind)\<close>
  says that the k-th database call of the operation (counted from 0) is the first one to
  raise, \<open>None\<close> that none does. \<open>Database.fetchone\<close> and \<open>Database.fetchall\<close> do not commit;
  a failure of either kind at such a call means that the query raised.
\<close>

datatype failure = StatementError | CommitError

type_synonym fault = "(nat \<times> failure) option"

definition raises_at :: "fault \<Rightarrow> nat \<Rightarrow> bool" where
  "raises_at f k = (case f of None \<Rightarrow> False | Some (j, kind) \<Rightarrow> j = k)"

definition applied_at :: "fault \<Rightarrow> nat \<Rightarrow> bool" where
  "applied_at f k =
     (case f of None \<Rightarrow> True | Some (j, kind) \<Rightarrow> if j = k then kind = CommitError else True)"

text \<open>The tables after the k-th call, which runs \<open>statement\<close> through \<open>Database.execute\<close>.\<close>

definition execute :: "fault \<Rightarrow> nat \<Rightarrow> (database \<Rightarrow> database) \<Rightarrow> database \<Rightarrow> database" where
  "execute f k statement db = (if applied_at f k then statement db else db)"

definition shift_fault :: "nat \<Rightarrow> fault \<Rightarrow> fault" where
  "shift_fault k f =
     (case f of None \<Rightarrow> None | Some (j, kind) \<Rightarrow> if j < k then None else Some (j - k, kind))"

text \<open>\<open>str(n)\<close> for a Python int: decimal digits, a minus sign for negative numbers.\<close>

definition digit_char :: "nat \<Rightarrow> char" where
  "digit_char d = ''0123456789'' ! d"

fun str_nat :: "nat \<Rightarrow> string" where
  "str_nat n = (if n < 10 then [digit_char n] else str_nat (n div 10) @ [digit_char (n mod 10)])"

declare str_nat.simps [simp del]

definition str_int :: "int \<Rightarrow> string" where
  "str_int i = (if i < 0 then CHR ''-'' # str_nat (nat (- i)) else str_nat (nat i))"

text \<open>\<open>f"{code}"\<close> for an \<open>Optional[str]\<close>.\<close>

definition str_optional :: "string option \<Rightarrow> string" where
  "str_optional c = (case c of None \<Rightarrow> ''None'' | Some s \<Rightarrow> s)"

text \<open>
  \<open>datetime.strftime("%Y-%m-%d %H:%M:%S")\<close> drops the microseconds; \<open>datetime.strptime\<close> with
  the same format reads the text back as a datetime on the whole second;
  \<open>timedelta(minutes=m)\<close> is a number of microseconds.
\<close>

definition strftime :: "datetime \<Rightarrow> sql_timestamp" where
  "strftime t = t div 1000000"

definition strptime :: "sql_timestamp \<Rightarrow> datetime" where
  "strptime s = s * 1000000"

definition timedelta_minutes :: "int \<Rightarrow> int" where
  "timedelta_minutes m = m * 60 * 1000000"

section \<open>The SQL statements of number_manager.py\<close>

text \<open>
  AUTOINCREMENT: one more than the largest id in use (no statement of the service deletes
  a row).
\<close>

definition next_id :: "int list \<Rightarrow> int" where
  "next_id ids = fold max ids 0 + 1"

text \<open>\<open>INSERT INTO logs (who, action, meta) VALUES (?, ?, ?)\<close> (Database.log_action).\<close>

definition log_action :: "sql_timestamp \<Rightarrow> int \<Rightarrow> string \<Rightarrow> string \<Rightarrow> database \<Rightarrow> database" where
  "log_action ts who action meta db =
     db\<lparr>logs := logs db @
       [\<lparr>log_id = next_id (map log_id (logs db)), log_who = who, log_action_name = action,
         log_meta = meta, log_created_at = ts\<rparr>]\<rparr>"

text \<open>
  \<open>INSERT INTO number_requests (user_id, number_id, api_request_id, status, expires_at)
  VALUES (?, ?, ?, ?, ?)\<close>; \<open>code\<close> defaults to NULL and \<open>requested_at\<close> to the database's
  CURRENT_TIMESTAMP.
\<close>

definition insert_number_request ::
  "sql_timestamp \<Rightarrow> int \<Rightarrow> int \<Rightarrow> string \<Rightarrow> string \<Rightarrow> sql_timestamp \<Rightarrow> database \<Rightarrow> database" where
  "insert_number_request ts user_id number_id api_request_id status expires_at db =
     db\<lparr>number_requests := number_requests db @
       [\<lparr>req_id = next_id (map req_id (number_requests db)), req_user_id = user_id,
         req_number_id = number_id, req_api_request_id = api_request_id, req_status = status,
         req_expires_at = expires_at, req_code = None, req_requested_at = ts\<rparr>]\<rparr>"

text \<open>\<open>UPDATE numbers SET is_active = 0, last_used = ?, last_used_by = ? WHERE id = ?\<close>\<close>

definition update_number_held :: "sql_timestamp \<Rightarrow> int \<Rightarrow> int \<Rightarrow> database \<Rightarrow> database" where
  "update_number_held last_used user_id number_id db =
     db\<lparr>numbers := map (\<lambda>r. if num_id r = number_id
        then r\<lparr>num_is_active := False, num_last_used := Some last_used,
               num_last_used_by := Some user_id\<rparr>
        else r) (numbers db)\<rparr>"

text \<open>\<open>UPDATE numbers SET is_active = 1 WHERE id = ?\<close>\<close>

definition update_number_active :: "int \<Rightarrow> database \<Rightarrow> database" where
  "update_number_active number_id db =
     db\<lparr>numbers := map (\<lambda>r. if num_id r = number_id then r\<lparr>num_is_active := True\<rparr> else r)
        (numbers db)\<rparr>"

text \<open>\<open>UPDATE numbers SET times_used = times_used + 1 WHERE id = ?\<close>\<close>

definition update_number_usage :: "int \<Rightarrow> database \<Rightarrow> database" where
  "update_number_usage number_id db =
     db\<lparr>numbers := map (\<lambda>r. if num_id r = number_id
        then r\<lparr>num_times_used := num_times_used r + 1\<rparr> else r) (numbers db)\<rparr>"

text \<open>
  \<open>UPDATE number_requests SET status = ?, code = ?
  WHERE user_id = ? AND number_id = ? AND status = 'PENDING'\<close>
\<close>

definition is_pending_for :: "int \<Rightarrow> int \<Rightarrow> request_row \<Rightarrow> bool" where
  "is_pending_for user_id number_id r =
     (req_user_id r = user_id \<and> req_number_id r = number_id \<and> req_status r = ''PENDING'')"

definition update_request_status ::
  "string \<Rightarrow> string option \<Rightarrow> int \<Rightarrow> int \<Rightarrow> database \<Rightarrow> database" where
  "update_request_status status code user_id number_id db =
     db\<lparr>number_requests := map (\<lambda>r. if is_pending_for user_id number_id r
        then r\<lparr>req_status := status, req_code := code\<rparr> else r) (number_requests db)\<rparr>"

section \<open>NumberManager.finalize_number_request\<close>

text \<open>
  Three database calls: the conditional update of the request rows (call 0), the update of
  the number chosen by \<open>status\<close> (call 1) and the log row (call 2). The method has no
  \<open>try\<close>: an exception of a call leaves the method, with what the earlier calls (and, on
  a failed commit, the failing call) have changed in place. A \<open>status\<close> other than the
  three terminal ones only runs call 0.
\<close>

definition finalize_number_request ::
  "fault \<Rightarrow> sql_timestamp \<Rightarrow> int \<Rightarrow> int \<Rightarrow> string \<Rightarrow> string option \<Rightarrow> database
     \<Rightarrow> (py_exception + unit) \<times> database" where
  "finalize_number_request f ts user_id number_id status code db =
     (let db1 = execute f 0 (update_request_status status code user_id number_id) db in
      if raises_at f 0 then (Inl DatabaseError, db1)
      else if status \<in> set [''EXPIRED'', ''CANCELLED''] then
        (let db2 = execute f 1 (update_number_active number_id) db1 in
         if raises_at f 1 then (Inl DatabaseError, db2)
         else
           let db3 = execute f 2 (log_action ts user_id ''NUMBER_REQUEST_FAILED''
                       (''Number ID: '' @ str_int number_id @ '', Status: '' @ status)) db2 in
           if raises_at f 2 then (Inl DatabaseError, db3) else (Inr (), db3))
      else if status = ''SUCCESS'' then
        (let db2 = execute f 1 (update_number_usage number_id) db1 in
         if raises_at f 1 then (Inl DatabaseError, db2)
         else
           let db3 = execute f 2 (log_action ts user_id ''NUMBER_REQUEST_SUCCESS''
                       (''Number ID: '' @ str_int number_id @ '', Code: '' @ str_optional code)) db2 in
           if raises_at f 2 then (Inl DatabaseError, db3) else (Inr (), db3))
      else (Inr (), db1))"

section \<open>NumberManager.initialize_number_request\<close>

text \<open>
  \<open>Database.fetchone\<close> catches every exception and returns \<open>None\<close>; otherwise it returns
  the first row of the result. \<open>SELECT id, number, platform FROM numbers WHERE id = ? AND
  is_active = 1\<close>:
\<close>

definition select_active_number :: "int \<Rightarrow> database \<Rightarrow> number_row option" where
  "select_active_number number_id db =
     find (\<lambda>r. num_id r = number_id \<and> num_is_active r) (numbers db)"

text \<open>The dictionary the method returns.\<close>

record request_data =
  rd_number_id :: int
  rd_number :: string
  rd_platform :: string
  rd_api_request_id :: string
  rd_expires_at :: sql_timestamp

definition request_expiry_minutes :: int where
  "request_expiry_minutes = 5"

text \<open>
  The inputs the method reads from its environment are parameters: \<open>uuid\<close> is
  \<open>str(uuid.uuid4())\<close>, \<open>now\<close> and \<open>now2\<close> are the two readings of \<open>datetime.now()\<close>, \<open>ts\<close>
  is the database's CURRENT_TIMESTAMP. Database calls: the lookup (0), the insert of the
  request (1), the update of the number (2), the log row (3). The \<open>try\<close> around calls 1 to
  3 turns an exception into the result \<open>None\<close>; nothing is rolled back.
\<close>

definition initialize_number_request ::
  "fault \<Rightarrow> string \<Rightarrow> datetime \<Rightarrow> datetime \<Rightarrow> sql_timestamp \<Rightarrow> int \<Rightarrow> int \<Rightarrow> database
     \<Rightarrow> request_data option \<times> database" where
  "initialize_number_request f uuid now now2 ts user_id number_id db =
     (case (if raises_at f 0 then None else select_active_number number_id db) of
        None \<Rightarrow> (None, db)
      | Some number_data \<Rightarrow>
          let api_request_id = uuid;
              expires_at = now + timedelta_minutes request_expiry_minutes;
              expires_at_str = strftime expires_at;
              db1 = execute f 1 (insert_number_request ts user_id number_id api_request_id
                      ''PENDING'' expires_at_str) db
          in
            if raises_at f 1 then (None, db1)
            else
              let db2 = execute f 2 (update_number_held (strftime now2) user_id number_id) db1 in
              if raises_at f 2 then (None, db2)
              else
                let db3 = execute f 3 (log_action ts user_id ''NUMBER_REQUEST_INITIATED''
                            (''Number ID: '' @ str_int number_id @ '', API ID: '' @ api_request_id))
                            db2 in
                if raises_at f 3 then (None, db3)
                else
                  (Some \<lparr>rd_number_id = number_id, rd_number = num_number number_data,
                          rd_platform = num_platform number_data,
                          rd_api_request_id = api_request_id,
                          rd_expires_at = expires_at_str\<rparr>, db3))"

section \<open>NumberManager.check_for_code and the simulated verification API\<close>

text \<open>
  \<open>SELECT * FROM number_requests WHERE user_id = ? AND number_id = ? AND status = 'PENDING'
  ORDER BY requested_at DESC LIMIT 1\<close>: the pending row of the pair with the latest
  \<open>requested_at\<close>; among rows with the same time stamp (SQL leaves their order open) the one
  with the smallest rowid.
\<close>

fun latest_request :: "request_row list \<Rightarrow> request_row option" where
  "latest_request [] = None"
| "latest_request (r # rs) =
     (case latest_request rs of
        None \<Rightarrow> Some r
      | Some r' \<Rightarrow> if req_requested_at r < req_requested_at r' then Some r' else Some r)"

definition select_pending_request :: "int \<Rightarrow> int \<Rightarrow> database \<Rightarrow> request_row option" where
  "select_pending_request user_id number_id db =
     latest_request (filter (is_pending_for user_id number_id) (number_requests db))"

text \<open>
  \<open>_simulate_api_check\<close> draws \<open>random.random()\<close> and, below 0.3,
  \<open>random.randint(100000, 999999)\<close>. The two draws are the parameters \<open>u\<close> and \<open>d\<close>; the
  request id is not used.
\<close>

definition simulate_api_check :: "real \<Rightarrow> int \<Rightarrow> string \<Rightarrow> string option" where
  "simulate_api_check u d api_request_id = (if u < 0.3 then Some (str_int d) else None)"

text \<open>
  The result of \<open>check_for_code\<close>: the value returned or the exception raised, the database
  afterwards, and the request ids with which the verification API was consulted. Database
  calls: the lookup (0), then those of \<open>finalize_number_request\<close> (1 to 3). \<open>if code:\<close> is
  Python truth: neither \<open>None\<close> nor the empty string.
\<close>

definition check_for_code ::
  "fault \<Rightarrow> datetime \<Rightarrow> sql_timestamp \<Rightarrow> real \<Rightarrow> int \<Rightarrow> int \<Rightarrow> int \<Rightarrow> database
     \<Rightarrow> (py_exception + string option) \<times> database \<times> string list" where
  "check_for_code f now ts u d user_id number_id db =
     (case (if raises_at f 0 then None else select_pending_request user_id number_id db) of
        None \<Rightarrow> (Inr None, db, [])
      | Some request \<Rightarrow>
          let expires_at = strptime (req_expires_at request) in
          if expires_at < now then
            (case finalize_number_request (shift_fault 1 f) ts user_id number_id ''EXPIRED'' None db of
               (Inl e, db') \<Rightarrow> (Inl e, db', [])
             | (Inr _, db') \<Rightarrow> (Inr (Some ''EXPIRED''), db', []))
          else
            let code = simulate_api_check u d (req_api_request_id request);
                asked = [req_api_request_id request]
            in
              (case code of
                 None \<Rightarrow> (Inr None, db, asked)
               | Some c \<Rightarrow>
                   if c = [] then (Inr None, db, asked)
                   else
                     (case finalize_number_request (shift_fault 1 f) ts user_id number_id
                             ''SUCCESS'' (Some c) db of
                        (Inl e, db') \<Rightarrow> (Inl e, db', asked)
                      | (Inr _, db') \<Rightarrow> (Inr (Some c), db', asked))))"

section \<open>The handlers of number_handlers.py\<close>

text \<open>
  What the user is shown. \<open>number_check_code_handler\<close> calls the undefined name
  \<open>safe_edit_text\<close> on the branch of a delivered code, which raises \<open>NameError\<close> after the
  request has been finalized.
\<close>

datatype reply = ReplyUnavailable | ReplyReserved request_data | ReplyExpired | ReplyNotReady
  | ReplyCancelled

definition number_request_handler ::
  "fault \<Rightarrow> string \<Rightarrow> datetime \<Rightarrow> datetime \<Rightarrow> sql_timestamp \<Rightarrow> int \<Rightarrow> int \<Rightarrow> database
     \<Rightarrow> reply \<times> database" where
  "number_request_handler f uuid now now2 ts user_id number_id db =
     (case initialize_number_request f uuid now now2 ts user_id number_id db of
        (None, db') \<Rightarrow> (ReplyUnavailable, db')
      | (Some request_data, db') \<Rightarrow> (ReplyReserved request_data, db'))"

definition number_check_code_handler ::
  "fault \<Rightarrow> datetime \<Rightarrow> sql_timestamp \<Rightarrow> real \<Rightarrow> int \<Rightarrow> int \<Rightarrow> int \<Rightarrow> database
     \<Rightarrow> (py_exception + reply) \<times> database" where
  "number_check_code_handler f now ts u d user_id number_id db =
     (case check_for_code f now ts u d user_id number_id db of
        (Inl e, db', _) \<Rightarrow> (Inl e, db')
      | (Inr code_result, db', _) \<Rightarrow>
          if code_result = Some ''EXPIRED'' then (Inr ReplyExpired, db')
          else if code_result \<noteq> None \<and> code_result \<noteq> Some [] then (Inl NameError, db')
          else (Inr ReplyNotReady, db'))"

definition number_cancel_request_handler ::
  "fault \<Rightarrow> sql_timestamp \<Rightarrow> int \<Rightarrow> int \<Rightarrow> database \<Rightarrow> (py_exception + reply) \<times> database" where
  "number_cancel_request_handler f ts user_id number_id db =
     (case finalize_number_request f ts user_id number_id ''CANCELLED'' None db of
        (Inl e, db') \<Rightarrow> (Inl e, db')
      | (Inr _, db') \<Rightarrow> (Inr ReplyCancelled, db'))"

section \<open>Listing and counting the numbers of a country\<close>

text \<open>
  \<open>ORDER BY is_premium DESC, added_at DESC\<close> as an ascending key: premium rows first, then
  the latest \<open>added_at\<close> first. Rows with equal keys stay in rowid order (SQL leaves their
  order open).
\<close>

definition order_key :: "number_row \<Rightarrow> bool \<times> int" where
  "order_key r = (\<not> num_is_premium r, - num_added_at r)"

text \<open>
  \<open>LIMIT ? OFFSET ?\<close> in SQLite: a negative offset counts as 0, a negative limit as no
  limit.
\<close>

definition sql_limit_offset :: "int \<Rightarrow> int \<Rightarrow> 'a list \<Rightarrow> 'a list" where
  "sql_limit_offset n k xs =
     (let ys = drop (nat k) xs in if n < 0 then ys else take (nat n) ys)"

text \<open>
  The WHERE clause of \<open>get_numbers_for_country\<close>; \<open>AND is_premium = 0\<close> is appended for a
  caller who is not PRO.
\<close>

definition listable :: "int \<Rightarrow> bool \<Rightarrow> number_row \<Rightarrow> bool" where
  "listable country_id is_pro r =
     (num_country_id r = country_id \<and> num_is_active r \<and> (if is_pro then True else \<not> num_is_premium r))"

definition ordered_numbers :: "int \<Rightarrow> bool \<Rightarrow> database \<Rightarrow> number_row list" where
  "ordered_numbers country_id is_pro db =
     sort_key order_key (filter (listable country_id is_pro) (numbers db))"

text \<open>The columns \<open>id, number, platform, is_premium\<close> of a selected row.\<close>

record listed_number =
  ln_id :: int
  ln_number :: string
  ln_platform :: string
  ln_is_premium :: bool

definition listed :: "number_row \<Rightarrow> listed_number" where
  "listed r = \<lparr>ln_id = num_id r, ln_number = num_number r, ln_platform = num_platform r,
                ln_is_premium = num_is_premium r\<rparr>"

text \<open>\<open>Database.fetchall\<close> catches every exception and returns the empty list.\<close>

definition get_numbers_for_country ::
  "fault \<Rightarrow> int \<Rightarrow> bool \<Rightarrow> int \<Rightarrow> int \<Rightarrow> database \<Rightarrow> listed_number list" where
  "get_numbers_for_country f country_id is_pro page limit db =
     (let offset = (page - 1) * limit in
      if raises_at f 0 then []
      else map listed (sql_limit_offset limit offset (ordered_numbers country_id is_pro db)))"

text \<open>
  \<open>SELECT COUNT(id) FROM numbers WHERE country_id = ? AND is_active = 1\<close> always yields one
  row. \<open>Database.fetchone\<close> turns the row into a dictionary keyed by column name, and
  \<open>get_total_numbers_count\<close> then reads \<open>result[0]\<close>, the entry under the integer key 0.
\<close>

datatype py_key = StrKey string | IntKey int

definition select_count_numbers :: "int \<Rightarrow> database \<Rightarrow> int" where
  "select_count_numbers country_id db =
     int (length (filter (\<lambda>r. num_country_id r = country_id \<and> num_is_active r) (numbers db)))"

definition fetchone_count :: "fault \<Rightarrow> int \<Rightarrow> database \<Rightarrow> (py_key \<times> int) list option" where
  "fetchone_count f country_id db =
     (if raises_at f 0 then None
      else Some [(StrKey ''COUNT(id)'', select_count_numbers country_id db)])"

definition get_total_numbers_count :: "fault \<Rightarrow> int \<Rightarrow> database \<Rightarrow> py_exception + int" where
  "get_total_numbers_count f country_id db =
     (case fetchone_count f country_id db of
        None \<Rightarrow> Inr 0
      | Some result \<Rightarrow>
          if result = [] then Inr 0
          else (case map_of result (IntKey 0) of
                  None \<Rightarrow> Inl KeyError
                | Some v \<Rightarrow> Inr v))"

text \<open>
  Lines 98 to 100 of \<open>numbers_list_handler\<close>: the page of numbers (database call 0), the
  total count (database call 1) and the number of pages, with \<open>NUMBERS_PER_PAGE = 10\<close>;
  \<open>//\<close> rounds down.
\<close>

definition NUMBERS_PER_PAGE :: int where
  "NUMBERS_PER_PAGE = 10"

definition numbers_list_page ::
  "fault \<Rightarrow> int \<Rightarrow> bool \<Rightarrow> int \<Rightarrow> database \<Rightarrow> py_exception + (listed_number list \<times> int)" where
  "numbers_list_page f country_id is_pro page db =
     (let numbers_page = get_numbers_for_country f country_id is_pro page NUMBERS_PER_PAGE db in
      case get_total_numbers_count (shift_fault 1 f) country_id db of
        Inl e \<Rightarrow> Inl e
      | Inr total_count \<Rightarrow>
          Inr (numbers_page, (total_count + NUMBERS_PER_PAGE - 1) div NUMBERS_PER_PAGE))"

section \<open>The pending requests of a number\<close>

text \<open>The leases that hold a number: its request rows with the status PENDING.\<close>

definition pending_requests_of :: "int \<Rightarrow> database \<Rightarrow> request_row list" where
  "pending_requests_of number_id db =
     filter (\<lambda>r. req_number_id r = number_id \<and> req_status r = ''PENDING'') (number_requests db)"

text \<open>
  Mutual exclusion: a number has at most one pending request, and an active number has
  none.
\<close>

definition mutual_exclusion :: "database \<Rightarrow> bool" where
  "mutual_exclusion db =
     (\<forall>n. length (pending_requests_of n db) \<le> 1
        \<and> ((\<exists>row \<in> set (numbers db). num_id row = n \<and> num_is_active row) \<longrightarrow>
             pending_requests_of n db = []))"

section \<open>The order of a listing\<close>

text \<open>
  Premium first, then most recently added first: a premium row may stand before any row
  that is not premium, and among rows of the same tier the one added later (or at the same
  time) stands first.
\<close>

definition listed_before :: "number_row \<Rightarrow> number_row \<Rightarrow> bool" where
  "listed_before a b =
     ((num_is_premium a \<and> \<not> num_is_premium b)
      \<or> (num_is_premium a = num_is_premium b \<and> num_added_at b \<le> num_added_at a))"

section \<open>Example states\<close>

text \<open>
  Number 1 of country 1 and requests for it, used where a statement is evaluated on a
  concrete database.
\<close>

definition example_number :: "bool \<Rightarrow> int \<Rightarrow> number_row" where
  "example_number active used = \<lparr>num_id = 1, num_country_id = 1, num_number = ''+15550100'',
     num_platform = ''Telegram'', num_added_by = 9, num_added_at = 0, num_is_premium = False,
     num_premium_pattern = None, num_times_used = used, num_last_used = None,
     num_is_active = active, num_last_used_by = None\<rparr>"

definition example_request :: "int \<Rightarrow> int \<Rightarrow> string \<Rightarrow> string option \<Rightarrow> request_row" where
  "example_request rid user_id status code = \<lparr>req_id = rid, req_user_id = user_id,
     req_number_id = 1, req_api_request_id = ''a'', req_status = status, req_expires_at = 300,
     req_code = code, req_requested_at = 0\<rparr>"

text \<open>Number 1 is held by the pending request of user 7, which expires at second 300.\<close>

definition held_example :: database where
  "held_example = \<lparr>numbers = [example_number False 0],
     number_requests = [example_request 1 7 ''PENDING'' None], logs = []\<rparr>"

text \<open>The request of user 7 for number 1 has received the code 123456.\<close>

definition delivered_example :: database where
  "delivered_example = \<lparr>numbers = [example_number False 1],
     number_requests = [example_request 1 7 ''SUCCESS'' (Some ''123456'')], logs = []\<rparr>"

text \<open>Number 1 is free and has never been requested.\<close>

definition free_example :: database where
  "free_example = \<lparr>numbers = [example_number True 0], number_requests = [], logs = []\<rparr>"

text \<open>
  A run of the handlers from \<open>free_example\<close>: user 7 requests number 1 and cancels; user 8
  requests number 1; the cancel button of user 7 is handled a second time; user 9 requests
  number 1.
\<close>

definition after_first_request :: database where
  "after_first_request = snd (number_request_handler None ''a'' 0 0 0 7 1 free_example)"

definition after_first_cancel :: database where
  "after_first_cancel = snd (number_cancel_request_handler None 10 7 1 after_first_request)"

definition after_second_request :: database where
  "after_second_request =
     snd (number_request_handler None ''b'' 20000000 20000000 20 8 1 after_first_cancel)"

definition after_second_cancel :: database where
  "after_second_cancel = snd (number_cancel_request_handler None 21 7 1 after_second_request)"

definition after_third_request :: database where
  "after_third_request =
     snd (number_request_handler None ''c'' 30000000 30000000 30 9 1 after_second_cancel)"

text \<open>
  Another run from \<open>free_example\<close>: user 7 requests number 1 at time 0; the cancel handler
  runs for user 8, who has no request; user 7 requests number 1 again at second 200. The
  pair (7, 1) then has two pending requests, expiring at seconds 300 and 500.
\<close>

definition after_stray_cancel :: database where
  "after_stray_cancel = snd (number_cancel_request_handler None 100 8 1 after_first_request)"

definition after_repeated_request :: database where
  "after_repeated_request =
     snd (number_request_handler None ''b'' 200000000 200000000 200 7 1 after_stray_cancel)"

text \<open>
  Country 1 with three active numbers: a standard one added at second 10, a premium one
  added at second 5 and a standard one added at second 20; number 4 belongs to country 2.
\<close>

definition listing_number :: "int \<Rightarrow> int \<Rightarrow> bool \<Rightarrow> int \<Rightarrow> number_row" where
  "listing_number i country premium added = \<lparr>num_id = i, num_country_id = country,
     num_number = ''+1555010'' @ str_int i, num_platform = ''Telegram'', num_added_by = 9,
     num_added_at = added, num_is_premium = premium, num_premium_pattern = None,
     num_times_used = 0, num_last_used = None, num_is_active = True,
     num_last_used_by = None\<rparr>"

definition listing_example :: database where
  "listing_example = \<lparr>numbers = [listing_number 1 1 False 10, listing_number 2 1 True 5,
     listing_number 3 1 False 20, listing_number 4 2 False 30],
     number_requests = [], logs = []\<rparr>"

section \<open>Facts about the queries\<close>

lemma latest_request_mem: "latest_request xs = Some r \<Longrightarrow> r \<in> set xs"
  by (induction xs arbitrary: r) (auto split: option.splits if_splits)

lemma latest_request_None_iff: "latest_request xs = None \<longleftrightarrow> xs = []"
  by (cases xs) (auto split: option.splits)

lemma latest_request_max:
  "latest_request xs = Some q \<Longrightarrow> \<forall>r \<in> set xs. req_requested_at r \<le> req_requested_at q"
proof (induction xs arbitrary: q)
  case Nil
  then show ?case by simp
next
  case (Cons x xs)
  show ?case
  proof (cases "latest_request xs")
    case None
    then have "xs = []" by (simp add: latest_request_None_iff)
    with Cons.prems show ?thesis by simp
  next
    case (Some r')
    then have le: "\<forall>r \<in> set xs. req_requested_at r \<le> req_requested_at r'"
      by (rule Cons.IH)
    show ?thesis
    proof (cases "req_requested_at x < req_requested_at r'")
      case True
      with Some Cons.prems have "q = r'" by simp
      with le True show ?thesis by auto
    next
      case False
      with Some Cons.prems have "q = x" by simp
      with le False show ?thesis by fastforce
    qed
  qed
qed

lemma select_pending_request_None_iff:
  "select_pending_request user_id number_id db = None \<longleftrightarrow>
     (\<forall>r \<in> set (number_requests db). \<not> is_pending_for user_id number_id r)"
  by (simp add: select_pending_request_def latest_request_None_iff filter_empty_conv)

lemma select_pending_request_latest:
  assumes "select_pending_request user_id number_id db = Some q"
  shows "\<forall>r \<in> set (number_requests db).
           is_pending_for user_id number_id r \<longrightarrow> req_requested_at r \<le> req_requested_at q"
  using latest_request_max [OF assms [unfolded select_pending_request_def]] by simp

lemma select_pending_request_Some:
  "select_pending_request user_id number_id db = Some r \<Longrightarrow>
     r \<in> set (number_requests db) \<and> is_pending_for user_id number_id r"
  by (auto simp: select_pending_request_def dest: latest_request_mem)

lemma update_request_status_no_pending:
  "\<forall>r \<in> set (number_requests db). \<not> is_pending_for user_id number_id r \<Longrightarrow>
     update_request_status status code user_id number_id db = db"
  by (simp add: update_request_status_def map_idI)

lemma finalize_no_fault_returns:
  "fst (finalize_number_request None ts user_id number_id status code db) = Inr ()"
  by (simp add: finalize_number_request_def raises_at_def applied_at_def execute_def Let_def)

lemma numbers_log_action [simp]: "numbers (log_action ts who a m db) = numbers db"
  by (simp add: log_action_def)

lemma requests_log_action [simp]:
  "number_requests (log_action ts who a m db) = number_requests db"
  by (simp add: log_action_def)

lemma numbers_update_request_status [simp]:
  "numbers (update_request_status status code user_id number_id db) = numbers db"
  by (simp add: update_request_status_def)

lemma logs_update_request_status [simp]:
  "logs (update_request_status status code user_id number_id db) = logs db"
  by (simp add: update_request_status_def)

lemma requests_update_number_active [simp]:
  "number_requests (update_number_active number_id db) = number_requests db"
  by (simp add: update_number_active_def)

lemma requests_update_number_usage [simp]:
  "number_requests (update_number_usage number_id db) = number_requests db"
  by (simp add: update_number_usage_def)

lemma logs_update_number_active [simp]:
  "logs (update_number_active number_id db) = logs db"
  by (simp add: update_number_active_def)

lemma logs_update_number_usage [simp]:
  "logs (update_number_usage number_id db) = logs db"
  by (simp add: update_number_usage_def)

lemma finalize_without_pending_keeps_requests:
  assumes "\<forall>r \<in> set (number_requests db). \<not> is_pending_for user_id number_id r"
  shows "number_requests (snd (finalize_number_request f ts user_id number_id status code db)) =
           number_requests db"
  by (simp add: finalize_number_request_def Let_def execute_def
      update_request_status_no_pending [OF assms])

lemma initialize_unavailable:
  "select_active_number number_id db = None \<Longrightarrow>
     initialize_number_request f uuid now now2 ts user_id number_id db = (None, db)"
  by (simp add: initialize_number_request_def)

lemmas trace_defs = number_request_handler_def number_cancel_request_handler_def
  initialize_number_request_def finalize_number_request_def raises_at_def applied_at_def execute_def Let_def
  select_active_number_def insert_number_request_def update_number_held_def
  update_number_active_def update_request_status_def log_action_def is_pending_for_def
  free_example_def example_number_def next_id_def strftime_def timedelta_minutes_def
  request_expiry_minutes_def

section \<open>Side effects of finalization\<close>

text \<open>
  C6. Without a database failure, finalizing with SUCCESS adds one to the usage counter of
  the number and changes nothing else in the numbers table, so the availability flag of
  every number is what it was (a held number stays held); finalizing with EXPIRED or with
  CANCELLED sets the availability flag of the number and changes nothing else in the
  numbers table.
\<close>

theorem finalize_side_effects_by_outcome:
  "numbers (snd (finalize_number_request None ts user_id number_id ''SUCCESS'' code db)) =
     map (\<lambda>r. if num_id r = number_id then r\<lparr>num_times_used := num_times_used r + 1\<rparr> else r)
       (numbers db)
   \<and> map num_is_active
       (numbers (snd (finalize_number_request None ts user_id number_id ''SUCCESS'' code db))) =
     map num_is_active (numbers db)
   \<and> numbers (snd (finalize_number_request None ts user_id number_id ''EXPIRED'' code db)) =
     map (\<lambda>r. if num_id r = number_id then r\<lparr>num_is_active := True\<rparr> else r) (numbers db)
   \<and> numbers (snd (finalize_number_request None ts user_id number_id ''CANCELLED'' code db)) =
     map (\<lambda>r. if num_id r = number_id then r\<lparr>num_is_active := True\<rparr> else r) (numbers db)"
  by (simp add: finalize_number_request_def raises_at_def applied_at_def execute_def Let_def update_number_usage_def
      update_number_active_def comp_def if_distrib cong: if_cong)

section \<open>Mutual exclusion\<close>

text \<open>
  What holds. A request for a number that does not exist or is not active is refused
  without any change (\<open>initialize_unavailable\<close>). Without database failures, mutual
  exclusion is kept by a request, by a poll, by the finalization of a pending request of
  the caller, and so by a cancellation of a caller who has a pending request for the
  number.
\<close>

lemma select_active_number_Some:
  "select_active_number number_id db = Some nd \<Longrightarrow>
     nd \<in> set (numbers db) \<and> num_id nd = number_id \<and> num_is_active nd"
  by (auto simp: select_active_number_def find_Some_iff)

lemma mutual_exclusion_initialize:
  assumes "mutual_exclusion db"
  shows "mutual_exclusion (snd (initialize_number_request None uuid now now2 ts user_id number_id db))"
proof (cases "select_active_number number_id db")
  case None
  with assms show ?thesis
    by (simp add: initialize_unavailable)
next
  case (Some nd)
  then have free: "pending_requests_of number_id db = []"
    using assms select_active_number_Some [OF Some]
    by (auto simp: mutual_exclusion_def)
  let ?db' = "snd (initialize_number_request None uuid now now2 ts user_id number_id db)"
  have pend: "pending_requests_of n ?db' =
      pending_requests_of n db @
        (if n = number_id
         then [\<lparr>req_id = next_id (map req_id (number_requests db)), req_user_id = user_id,
                req_number_id = number_id, req_api_request_id = uuid, req_status = ''PENDING'',
                req_expires_at = strftime (now + timedelta_minutes request_expiry_minutes),
                req_code = None, req_requested_at = ts\<rparr>]
         else [])" for n
    using Some
    by (simp add: initialize_number_request_def raises_at_def applied_at_def execute_def Let_def pending_requests_of_def
        insert_number_request_def update_number_held_def)
  have nums: "numbers ?db' =
      map (\<lambda>r. if num_id r = number_id
                then r\<lparr>num_is_active := False, num_last_used := Some (strftime now2),
                       num_last_used_by := Some user_id\<rparr>
                else r) (numbers db)"
    using Some
    by (simp add: initialize_number_request_def raises_at_def applied_at_def execute_def Let_def
        insert_number_request_def update_number_held_def)
  show ?thesis
    unfolding mutual_exclusion_def
  proof (intro allI conjI impI)
    fix n
    show "length (pending_requests_of n ?db') \<le> 1"
      using assms free by (auto simp: pend mutual_exclusion_def)
    assume "\<exists>row \<in> set (numbers ?db'). num_id row = n \<and> num_is_active row"
    then have "n \<noteq> number_id \<and> (\<exists>row \<in> set (numbers db). num_id row = n \<and> num_is_active row)"
      by (auto simp: nums split: if_splits)
    then show "pending_requests_of n ?db' = []"
      using assms by (auto simp: pend mutual_exclusion_def)
  qed
qed

lemma finalize_requests:
  "number_requests (snd (finalize_number_request None ts user_id number_id status code db)) =
     map (\<lambda>r. if is_pending_for user_id number_id r
               then r\<lparr>req_status := status, req_code := code\<rparr> else r) (number_requests db)"
  by (simp add: finalize_number_request_def raises_at_def applied_at_def execute_def Let_def update_request_status_def)

lemma finalize_active_numbers:
  assumes "row \<in> set (numbers (snd (finalize_number_request None ts user_id number_id status code db)))"
    and "num_is_active row" and "num_id row \<noteq> number_id"
  shows "\<exists>old \<in> set (numbers db). num_id old = num_id row \<and> num_is_active old"
  using assms
  by (auto simp: finalize_number_request_def raises_at_def applied_at_def execute_def Let_def update_number_active_def
      update_number_usage_def split: if_splits)

lemma finalize_success_active_numbers:
  assumes "row \<in> set (numbers (snd (finalize_number_request None ts user_id number_id ''SUCCESS'' code db)))"
    and "num_is_active row"
  shows "\<exists>old \<in> set (numbers db). num_id old = num_id row \<and> num_is_active old"
  using assms
  by (auto simp: finalize_number_request_def raises_at_def applied_at_def execute_def Let_def
      update_number_usage_def split: if_splits)

lemma pending_after_status_update:
  "status \<noteq> ''PENDING'' \<Longrightarrow>
     filter (\<lambda>r. req_number_id r = n \<and> req_status r = ''PENDING'')
       (map (\<lambda>r. if is_pending_for user_id number_id r
                 then r\<lparr>req_status := status, req_code := code\<rparr> else r) xs) =
     filter (\<lambda>x. \<not> is_pending_for user_id number_id x)
       (filter (\<lambda>r. req_number_id r = n \<and> req_status r = ''PENDING'') xs)"
  by (induction xs) (auto simp: is_pending_for_def)

lemma mutual_exclusion_finalize:
  assumes inv: "mutual_exclusion db"
    and r: "r \<in> set (number_requests db)" "is_pending_for user_id number_id r"
    and status: "status \<noteq> ''PENDING''"
  shows "pending_requests_of number_id
           (snd (finalize_number_request None ts user_id number_id status code db)) = []"
    and "length (pending_requests_of n
           (snd (finalize_number_request None ts user_id number_id status code db))) \<le> 1"
    and "pending_requests_of n db = [] \<Longrightarrow> pending_requests_of n
           (snd (finalize_number_request None ts user_id number_id status code db)) = []"
proof -
  let ?db' = "snd (finalize_number_request None ts user_id number_id status code db)"
  have other: "pending_requests_of n ?db' =
      filter (\<lambda>x. \<not> is_pending_for user_id number_id x) (pending_requests_of n db)" for n
    using status
    by (simp add: finalize_requests pending_requests_of_def pending_after_status_update)
  from r have "r \<in> set (pending_requests_of number_id db)"
    by (simp add: pending_requests_of_def is_pending_for_def)
  moreover from inv have "length (pending_requests_of number_id db) \<le> 1"
    by (simp add: mutual_exclusion_def)
  ultimately have "pending_requests_of number_id db = [r]"
    by (cases "pending_requests_of number_id db") auto
  with r(2) show "pending_requests_of number_id ?db' = []"
    by (simp add: other)
  have "length (pending_requests_of n ?db') \<le> length (pending_requests_of n db)"
    by (simp add: other)
  moreover from inv have "length (pending_requests_of n db) \<le> 1"
    by (simp add: mutual_exclusion_def)
  ultimately show "length (pending_requests_of n ?db') \<le> 1"
    by (rule le_trans)
  show "pending_requests_of n db = [] \<Longrightarrow> pending_requests_of n ?db' = []"
    by (simp add: other)
qed


lemma mutual_exclusion_finalize_pending:
  assumes inv: "mutual_exclusion db"
    and r: "r \<in> set (number_requests db)" "is_pending_for user_id number_id r"
    and status: "status \<in> {''SUCCESS'', ''EXPIRED'', ''CANCELLED''}"
  shows "mutual_exclusion (snd (finalize_number_request None ts user_id number_id status code db))"
proof -
  let ?db' = "snd (finalize_number_request None ts user_id number_id status code db)"
  from status have st: "status \<noteq> ''PENDING''" by auto
  note fin = mutual_exclusion_finalize [OF inv r st, where ts = ts and code = code]
  show ?thesis
    unfolding mutual_exclusion_def
  proof (intro allI conjI impI)
    fix n
    show "length (pending_requests_of n ?db') \<le> 1"
      by (rule fin(2))
    assume act: "\<exists>row \<in> set (numbers ?db'). num_id row = n \<and> num_is_active row"
    show "pending_requests_of n ?db' = []"
    proof (cases "n = number_id")
      case True
      then show ?thesis by (simp add: fin(1))
    next
      case False
      with act have "\<exists>old \<in> set (numbers db). num_id old = n \<and> num_is_active old"
        using finalize_active_numbers [where ts = ts and user_id = user_id and number_id = number_id
          and status = status and code = code and db = db] by metis
      with inv have "pending_requests_of n db = []"
        by (simp add: mutual_exclusion_def)
      then show ?thesis by (rule fin(3))
    qed
  qed
qed

lemma mutual_exclusion_cancel_by_holder:
  assumes "mutual_exclusion db"
    and "r \<in> set (number_requests db)" and "is_pending_for user_id number_id r"
  shows "mutual_exclusion (snd (number_cancel_request_handler None ts user_id number_id db))"
proof -
  have "snd (number_cancel_request_handler None ts user_id number_id db) =
      snd (finalize_number_request None ts user_id number_id ''CANCELLED'' None db)"
    by (simp add: number_cancel_request_handler_def split: prod.splits sum.splits)
  with mutual_exclusion_finalize_pending [OF assms, where status = "''CANCELLED''" and ts = ts
      and code = None]
  show ?thesis by simp
qed

lemma mutual_exclusion_check_for_code:
  assumes "mutual_exclusion db"
  shows "mutual_exclusion (fst (snd (check_for_code None now ts u d user_id number_id db)))"
proof (cases "select_pending_request user_id number_id db")
  case None
  with assms show ?thesis
    by (simp add: check_for_code_def raises_at_def applied_at_def execute_def Let_def)
next
  case (Some q)
  then have q: "q \<in> set (number_requests db)" "is_pending_for user_id number_id q"
    by (simp_all add: select_pending_request_Some)
  have db': "fst (snd (case p of (Inl e, db') \<Rightarrow> (Inl e, db', a)
                            | (Inr x, db') \<Rightarrow> (Inr (g x), db', a))) = snd p"
    for p :: "(py_exception + unit) \<times> database" and a :: "string list" and g :: "unit \<Rightarrow> string option"
    by (auto split: prod.splits sum.splits)
  show ?thesis
  proof (cases "strptime (req_expires_at q) < now")
    case True
    with Some have "fst (snd (check_for_code None now ts u d user_id number_id db)) =
        snd (finalize_number_request None ts user_id number_id ''EXPIRED'' None db)"
      by (simp add: check_for_code_def raises_at_def applied_at_def execute_def shift_fault_def Let_def db')
    then show ?thesis
      using mutual_exclusion_finalize_pending [OF assms q, where status = "''EXPIRED''"
          and ts = ts and code = None]
      by simp
  next
    case False
    show ?thesis
    proof (cases "simulate_api_check u d (req_api_request_id q)")
      case None
      with Some False assms show ?thesis
        by (simp add: check_for_code_def raises_at_def applied_at_def execute_def Let_def)
    next
      case (Some c)
      show ?thesis
      proof (cases "c = []")
        case True
        with Some \<open>select_pending_request user_id number_id db = Some q\<close> False assms
        show ?thesis
          by (simp add: check_for_code_def raises_at_def applied_at_def execute_def Let_def)
      next
        case nonempty: False
        with Some \<open>select_pending_request user_id number_id db = Some q\<close> False
        have "fst (snd (check_for_code None now ts u d user_id number_id db)) =
            snd (finalize_number_request None ts user_id number_id ''SUCCESS'' (Some c) db)"
          by (simp add: check_for_code_def raises_at_def applied_at_def execute_def shift_fault_def Let_def db')
        then show ?thesis
          using mutual_exclusion_finalize_pending [OF assms q, where status = "''SUCCESS''"
              and ts = ts and code = "Some c"]
          by simp
      qed
    qed
  qed
qed

lemma mutual_exclusion_free_example: "mutual_exclusion free_example"
  by (simp add: mutual_exclusion_def pending_requests_of_def free_example_def)

text \<open>
  C1, evaluated where the claim fails. Every step is a call of a handler without a database
  failure. After user 7 has cancelled and user 8 holds number 1, the cancel handler run
  once more for user 7 (who has no pending request) answers that the request was cancelled
  and makes the number active although the request of user 8 is pending; the request of
  user 9 is then accepted, and number 1 has two pending requests.
\<close>

theorem second_cancel_allows_two_pending_requests:
  "fst (number_request_handler None ''b'' 20000000 20000000 20 8 1 after_first_cancel) \<noteq> ReplyUnavailable
   \<and> fst (number_cancel_request_handler None 21 7 1 after_second_request) = Inr ReplyCancelled
   \<and> fst (number_request_handler None ''c'' 30000000 30000000 30 9 1 after_second_cancel) \<noteq> ReplyUnavailable
   \<and> map (\<lambda>r. (req_user_id r, req_status r)) (number_requests after_third_request) =
        [(7, ''CANCELLED''), (8, ''PENDING''), (9, ''PENDING'')]
   \<and> length (pending_requests_of 1 after_third_request) = 2"
  by (simp add: after_third_request_def after_second_cancel_def after_second_request_def
      after_first_cancel_def after_first_request_def pending_requests_of_def trace_defs)

section \<open>Finalizing a request that is no longer pending\<close>

text \<open>
  C2, evaluated where the claim fails. The request of user 7 for number 1 is already
  SUCCESS and the number is retired with one use. A further finalization leaves the request
  as it is, but with CANCELLED it puts the retired number back among the active ones, and
  with SUCCESS it counts a second use.
\<close>

theorem finalize_after_success_mutates_number:
  "number_requests (snd (finalize_number_request None 400 7 1 ''CANCELLED'' None delivered_example)) =
     number_requests delivered_example
   \<and> numbers delivered_example = [example_number False 1]
   \<and> numbers (snd (finalize_number_request None 400 7 1 ''CANCELLED'' None delivered_example)) =
       [example_number True 1]
   \<and> numbers (snd (finalize_number_request None 400 7 1 ''SUCCESS'' (Some ''654321'') delivered_example)) =
       [example_number False 2]"
  by (simp add: finalize_number_request_def raises_at_def applied_at_def execute_def Let_def update_request_status_def
      update_number_active_def update_number_usage_def delivered_example_def example_request_def
      example_number_def is_pending_for_def)

section \<open>Polling after the expiry\<close>

lemma after_repeated_request_state:
  "number_requests after_repeated_request =
     [\<lparr>req_id = 1, req_user_id = 7, req_number_id = 1, req_api_request_id = ''a'',
       req_status = ''PENDING'', req_expires_at = 300, req_code = None, req_requested_at = 0\<rparr>,
      \<lparr>req_id = 2, req_user_id = 7, req_number_id = 1, req_api_request_id = ''b'',
       req_status = ''PENDING'', req_expires_at = 500, req_code = None, req_requested_at = 200\<rparr>]"
  "map num_is_active (numbers after_repeated_request) = [False]"
  by (simp_all add: after_repeated_request_def after_stray_cancel_def after_first_request_def
      trace_defs)

text \<open>
  The claim C3 as the specification states it fails: \<open>check_for_code\<close> looks only at the
  pending request of the pair that was requested last. Here the pair (7, 1) has a pending
  request that expired at second 300 and a later one that expires at second 500. The poll
  at second 400 consults the verification API with the id of the later request and
  returns \<open>None\<close> or the delivered code, not "EXPIRED".
\<close>

theorem poll_newest_request_counterexample:
  "map (\<lambda>r. (req_user_id r, req_number_id r, req_status r, req_expires_at r))
     (number_requests after_repeated_request) =
     [(7, 1, ''PENDING'', 300), (7, 1, ''PENDING'', 500)]
   \<and> strptime 300 < 400000000
   \<and> check_for_code None 400000000 400 (1/2) 123456 7 1 after_repeated_request =
       (Inr None, after_repeated_request, [''b''])
   \<and> fst (check_for_code None 400000000 400 (1/10) 123456 7 1 after_repeated_request) =
       Inr (Some ''123456'')
   \<and> snd (snd (check_for_code None 400000000 400 (1/10) 123456 7 1 after_repeated_request)) =
       [''b'']"
proof -
  have str: "str_int 123456 = ''123456''"
    by (simp add: str_int_def str_nat.simps digit_char_def)
  show ?thesis
    by (simp add: after_repeated_request_state check_for_code_def raises_at_def
        select_pending_request_def is_pending_for_def strptime_def simulate_api_check_def
        Let_def str finalize_number_request_def shift_fault_def applied_at_def execute_def)
qed

text \<open>
  C3, amended. When the pair (user, number) has a pending request and each of its pending
  requests that was requested last (none of the pair's pending requests is later) is past
  its expiry at the time of the poll, in particular when the only pending request of the
  pair is past its expiry, then (without a database failure) \<open>check_for_code\<close> returns
  "EXPIRED", the database afterwards is the one \<open>finalize_number_request\<close> produces for
  the status EXPIRED, in which the pending requests of the pair are EXPIRED and the number
  is active again, and the verification API has not been consulted: the list of consulted
  request ids is empty, and the result does not depend on the random draws.
\<close>

theorem poll_after_expiry:
  assumes "r \<in> set (number_requests db)" and "is_pending_for user_id number_id r"
    and "\<forall>q \<in> set (number_requests db).
           is_pending_for user_id number_id q \<longrightarrow>
           (\<forall>r \<in> set (number_requests db).
              is_pending_for user_id number_id r \<longrightarrow> req_requested_at r \<le> req_requested_at q) \<longrightarrow>
           strptime (req_expires_at q) < now"
  shows "check_for_code None now ts u d user_id number_id db =
           (Inr (Some ''EXPIRED''),
            snd (finalize_number_request None ts user_id number_id ''EXPIRED'' None db), [])
         \<and> number_requests (snd (finalize_number_request None ts user_id number_id ''EXPIRED'' None db)) =
             map (\<lambda>r. if is_pending_for user_id number_id r
                       then r\<lparr>req_status := ''EXPIRED'', req_code := None\<rparr> else r)
               (number_requests db)
         \<and> numbers (snd (finalize_number_request None ts user_id number_id ''EXPIRED'' None db)) =
             map (\<lambda>r. if num_id r = number_id then r\<lparr>num_is_active := True\<rparr> else r) (numbers db)"
proof -
  from assms(1,2) have "select_pending_request user_id number_id db \<noteq> None"
    by (auto simp: select_pending_request_None_iff)
  then obtain q where q: "select_pending_request user_id number_id db = Some q"
    by auto
  then have "q \<in> set (number_requests db)" "is_pending_for user_id number_id q"
    by (simp_all add: select_pending_request_Some)
  with assms(3) select_pending_request_latest [OF q]
  have "strptime (req_expires_at q) < now"
    by blast
  with q have "check_for_code None now ts u d user_id number_id db =
           (Inr (Some ''EXPIRED''),
            snd (finalize_number_request None ts user_id number_id ''EXPIRED'' None db), [])"
    using finalize_no_fault_returns [of ts user_id number_id "''EXPIRED''" None db]
    by (auto simp: check_for_code_def raises_at_def shift_fault_def split: prod.splits sum.splits)
  moreover have "number_requests (snd (finalize_number_request None ts user_id number_id ''EXPIRED'' None db)) =
             map (\<lambda>r. if is_pending_for user_id number_id r
                       then r\<lparr>req_status := ''EXPIRED'', req_code := None\<rparr> else r)
               (number_requests db)"
    by (simp add: finalize_number_request_def raises_at_def applied_at_def execute_def Let_def
        update_request_status_def)
  moreover have "numbers (snd (finalize_number_request None ts user_id number_id ''EXPIRED'' None db)) =
             map (\<lambda>r. if num_id r = number_id then r\<lparr>num_is_active := True\<rparr> else r) (numbers db)"
    by (simp add: finalize_number_request_def raises_at_def applied_at_def execute_def Let_def
        update_number_active_def)
  ultimately show ?thesis by simp
qed

text \<open>
  The scenario of the specification: the request of user 7 for number 1 is created at time
  0 and expires at second 300; the poll comes six minutes after the creation.
\<close>

lemma after_first_request_state:
  "number_requests after_first_request =
     [\<lparr>req_id = 1, req_user_id = 7, req_number_id = 1, req_api_request_id = ''a'',
       req_status = ''PENDING'', req_expires_at = 300, req_code = None, req_requested_at = 0\<rparr>]"
  "numbers after_first_request =
     [(example_number False 0)\<lparr>num_last_used := Some 0, num_last_used_by := Some 7\<rparr>]"
  by (simp_all add: after_first_request_def trace_defs)

theorem poll_after_expiry_witness:
  "check_for_code None 360000000 360 (1/10) 123456 7 1 after_first_request =
     (Inr (Some ''EXPIRED''),
      snd (finalize_number_request None 360 7 1 ''EXPIRED'' None after_first_request), [])
   \<and> map req_status (number_requests
        (snd (finalize_number_request None 360 7 1 ''EXPIRED'' None after_first_request))) = [''EXPIRED'']
   \<and> map num_is_active (numbers after_first_request) = [False]
   \<and> map num_is_active (numbers
        (snd (finalize_number_request None 360 7 1 ''EXPIRED'' None after_first_request))) = [True]
   \<and> check_for_code None 600000000 600 (1/10) 123456 7 1 after_repeated_request =
     (Inr (Some ''EXPIRED''),
      snd (finalize_number_request None 600 7 1 ''EXPIRED'' None after_repeated_request), [])
   \<and> map req_status (number_requests
        (snd (finalize_number_request None 600 7 1 ''EXPIRED'' None after_repeated_request))) =
      [''EXPIRED'', ''EXPIRED'']"
  using poll_after_expiry [of "hd (number_requests after_first_request)" after_first_request
      7 1 360000000 360 "1/10" 123456]
    poll_after_expiry [of "hd (number_requests after_repeated_request)" after_repeated_request
      7 1 600000000 600 "1/10" 123456]
  by (simp add: after_first_request_state after_repeated_request_state example_number_def
      is_pending_for_def strptime_def)

section \<open>Cancelling\<close>

text \<open>
  The claim C4 as the specification states it fails: number 1 is free and user 8 has never
  requested it; the cancel handler still answers that the request was cancelled, and it
  writes a log row, so the database is not the one before.
\<close>

theorem cancel_without_request_counterexample:
  "fst (number_cancel_request_handler None 400 8 1 free_example) = Inr ReplyCancelled
   \<and> number_requests free_example = []
   \<and> logs free_example = []
   \<and> map log_action_name (logs (snd (number_cancel_request_handler None 400 8 1 free_example))) =
       [''NUMBER_REQUEST_FAILED'']
   \<and> snd (number_cancel_request_handler None 400 8 1 free_example) \<noteq> free_example"
  by (simp add: number_cancel_request_handler_def finalize_number_request_def raises_at_def
      applied_at_def execute_def Let_def update_request_status_def update_number_active_def
      free_example_def example_number_def is_pending_for_def log_action_def)

text \<open>
  C4, amended. Without a database failure the cancel handler always answers that the
  request was cancelled and appends one NUMBER_REQUEST_FAILED log row. A pending request
  of the pair (user, number) becomes CANCELLED with no code, no other request row changes,
  and the number is active afterwards. When the pair has no pending request, the handler
  does not fail: no request row changes, no number with another id changes, no column
  of the numbers table other than the availability flag changes, and when the number is
  active already the numbers table is unchanged.
\<close>

theorem cancel_request_effects:
  "fst (number_cancel_request_handler None ts user_id number_id db) = Inr ReplyCancelled
   \<and> logs (snd (number_cancel_request_handler None ts user_id number_id db)) =
        logs db @
          [\<lparr>log_id = next_id (map log_id (logs db)), log_who = user_id,
            log_action_name = ''NUMBER_REQUEST_FAILED'',
            log_meta = ''Number ID: '' @ str_int number_id @ '', Status: CANCELLED'',
            log_created_at = ts\<rparr>]
   \<and> (r \<in> set (number_requests db) \<and> is_pending_for user_id number_id r \<longrightarrow>
        r\<lparr>req_status := ''CANCELLED'', req_code := None\<rparr>
           \<in> set (number_requests (snd (number_cancel_request_handler None ts user_id number_id db)))
        \<and> number_requests (snd (number_cancel_request_handler None ts user_id number_id db)) =
           map (\<lambda>r. if is_pending_for user_id number_id r
                     then r\<lparr>req_status := ''CANCELLED'', req_code := None\<rparr> else r)
             (number_requests db)
        \<and> numbers (snd (number_cancel_request_handler None ts user_id number_id db)) =
           map (\<lambda>r. if num_id r = number_id then r\<lparr>num_is_active := True\<rparr> else r) (numbers db))
   \<and> ((\<forall>r \<in> set (number_requests db). \<not> is_pending_for user_id number_id r) \<longrightarrow>
        number_requests (snd (number_cancel_request_handler None ts user_id number_id db)) =
           number_requests db
        \<and> filter (\<lambda>row. num_id row \<noteq> number_id)
             (numbers (snd (number_cancel_request_handler None ts user_id number_id db))) =
           filter (\<lambda>row. num_id row \<noteq> number_id) (numbers db)
        \<and> map (\<lambda>row. row\<lparr>num_is_active := True\<rparr>)
             (numbers (snd (number_cancel_request_handler None ts user_id number_id db))) =
           map (\<lambda>row. row\<lparr>num_is_active := True\<rparr>) (numbers db)
        \<and> ((\<forall>row \<in> set (numbers db). num_id row = number_id \<longrightarrow> num_is_active row) \<longrightarrow>
             numbers (snd (number_cancel_request_handler None ts user_id number_id db)) =
               numbers db))"
proof -
  let ?db' = "snd (finalize_number_request None ts user_id number_id ''CANCELLED'' None db)"
  have fin: "finalize_number_request None ts user_id number_id ''CANCELLED'' None db = (Inr (), ?db')"
    by (simp add: prod_eq_iff finalize_no_fault_returns)
  have reply: "fst (number_cancel_request_handler None ts user_id number_id db) = Inr ReplyCancelled"
    unfolding number_cancel_request_handler_def by (subst fin) simp
  have db': "snd (number_cancel_request_handler None ts user_id number_id db) = ?db'"
    unfolding number_cancel_request_handler_def by (subst fin) simp
  have logged: "logs ?db' =
      logs db @
        [\<lparr>log_id = next_id (map log_id (logs db)), log_who = user_id,
          log_action_name = ''NUMBER_REQUEST_FAILED'',
          log_meta = ''Number ID: '' @ str_int number_id @ '', Status: CANCELLED'',
          log_created_at = ts\<rparr>]"
    by (simp add: finalize_number_request_def raises_at_def applied_at_def execute_def Let_def
        log_action_def)
  have reqs: "number_requests ?db' =
      map (\<lambda>r. if is_pending_for user_id number_id r
                then r\<lparr>req_status := ''CANCELLED'', req_code := None\<rparr> else r) (number_requests db)"
    by (simp add: finalize_number_request_def raises_at_def applied_at_def execute_def Let_def
        update_request_status_def)
  have nums: "numbers ?db' =
      map (\<lambda>r. if num_id r = number_id then r\<lparr>num_is_active := True\<rparr> else r) (numbers db)"
    by (simp add: finalize_number_request_def raises_at_def applied_at_def execute_def Let_def
        update_number_active_def)
  have mem: "r\<lparr>req_status := ''CANCELLED'', req_code := None\<rparr> \<in> set (number_requests ?db')"
    if "r \<in> set (number_requests db)" "is_pending_for user_id number_id r"
    unfolding reqs using that by (force simp: image_iff)
  have keep: "number_requests ?db' = number_requests db"
    if "\<forall>r \<in> set (number_requests db). \<not> is_pending_for user_id number_id r"
    using that by (rule finalize_without_pending_keeps_requests)
  have others: "filter (\<lambda>row. num_id row \<noteq> number_id) (numbers ?db') =
      filter (\<lambda>row. num_id row \<noteq> number_id) (numbers db)"
  proof -
    have "filter (\<lambda>row. num_id row \<noteq> number_id)
        (map (\<lambda>r. if num_id r = number_id then r\<lparr>num_is_active := True\<rparr> else r) xs) =
        filter (\<lambda>row. num_id row \<noteq> number_id) xs" for xs :: "number_row list"
      by (induction xs) auto
    then show ?thesis by (simp add: nums)
  qed
  have fields: "map (\<lambda>row. row\<lparr>num_is_active := True\<rparr>) (numbers ?db') =
      map (\<lambda>row. row\<lparr>num_is_active := True\<rparr>) (numbers db)"
    unfolding nums by simp
  have available: "numbers ?db' = numbers db"
    if "\<forall>row \<in> set (numbers db). num_id row = number_id \<longrightarrow> num_is_active row"
    unfolding nums using that by (intro map_idI) simp
  show ?thesis
    unfolding db'
    using reply logged reqs nums mem keep others fields available
    by blast
qed

theorem cancel_request_effects_witness:
  "fst (number_cancel_request_handler None 400 7 1 held_example) = Inr ReplyCancelled
   \<and> number_requests (snd (number_cancel_request_handler None 400 7 1 held_example)) =
       [example_request 1 7 ''CANCELLED'' None]
   \<and> numbers (snd (number_cancel_request_handler None 400 7 1 held_example)) =
       [example_number True 0]
   \<and> map log_action_name (logs (snd (number_cancel_request_handler None 400 7 1 held_example))) =
       [''NUMBER_REQUEST_FAILED'']
   \<and> fst (number_cancel_request_handler None 400 8 1 free_example) = Inr ReplyCancelled
   \<and> number_requests (snd (number_cancel_request_handler None 400 8 1 free_example)) = []
   \<and> numbers (snd (number_cancel_request_handler None 400 8 1 free_example)) =
       [example_number True 0]
   \<and> map log_action_name (logs (snd (number_cancel_request_handler None 400 8 1 free_example))) =
       [''NUMBER_REQUEST_FAILED'']"
  using cancel_request_effects [of 400 7 1 held_example "example_request 1 7 ''PENDING'' None"]
    cancel_request_effects [of 400 8 1 free_example "example_request 1 7 ''PENDING'' None"]
  by (simp add: held_example_def free_example_def example_request_def example_number_def
      is_pending_for_def)

section \<open>Polling without a pending request\<close>

text \<open>
  The claim C5 as the specification states it fails: after the code 123456 has been
  delivered, a further poll returns \<open>None\<close> and not the code, and \<open>None\<close> is also what a
  poll returns for a pending request whose code has not arrived; the handler shows the
  same "not ready" reply in both cases.
\<close>

theorem poll_without_request_counterexample:
  "check_for_code None 400000000 400 (1/10) 123456 7 1 delivered_example =
     (Inr None, delivered_example, [])
   \<and> fst (check_for_code None 100000000 100 (1/2) 123456 7 1 held_example) = Inr None
   \<and> number_check_code_handler None 400000000 400 (1/10) 123456 7 1 delivered_example =
       (Inr ReplyNotReady, delivered_example)
   \<and> fst (number_check_code_handler None 100000000 100 (1/2) 123456 7 1 held_example) =
       Inr ReplyNotReady"
  by (simp add: number_check_code_handler_def check_for_code_def raises_at_def applied_at_def execute_def
      select_pending_request_def delivered_example_def held_example_def example_request_def
      is_pending_for_def strptime_def simulate_api_check_def)

text \<open>
  C5, amended. When the pair (user, number) has no pending request, \<open>check_for_code\<close>
  returns \<open>None\<close>, the value it also returns while a code is awaited, and the handler shows
  the "not ready" reply. The database is unchanged (so no usage counter is incremented) and
  the verification API is not consulted. This holds whether or not the lookup fails.
\<close>

theorem poll_without_pending_request:
  assumes "\<forall>r \<in> set (number_requests db). \<not> is_pending_for user_id number_id r"
  shows "check_for_code f now ts u d user_id number_id db = (Inr None, db, [])
         \<and> number_check_code_handler f now ts u d user_id number_id db = (Inr ReplyNotReady, db)"
proof -
  from assms have "select_pending_request user_id number_id db = None"
    by (simp add: select_pending_request_None_iff)
  then have "check_for_code f now ts u d user_id number_id db = (Inr None, db, [])"
    by (simp add: check_for_code_def)
  then show ?thesis
    by (simp add: number_check_code_handler_def)
qed

theorem poll_without_pending_request_witness:
  "check_for_code None 400000000 400 (1/10) 123456 7 1 delivered_example =
     (Inr None, delivered_example, [])
   \<and> number_check_code_handler None 400000000 400 (1/10) 123456 7 1 delivered_example =
       (Inr ReplyNotReady, delivered_example)
   \<and> map num_times_used (numbers delivered_example) = [1]"
  using poll_without_pending_request [of delivered_example 7 1 None 400000000 400 "1/10" 123456]
  by (simp add: delivered_example_def example_request_def example_number_def is_pending_for_def)

section \<open>Starting a request, statement by statement\<close>




section \<open>Listing the numbers of a country\<close>

lemma order_key_listed_before: "order_key a \<le> order_key b \<Longrightarrow> listed_before a b"
  by (auto simp: order_key_def listed_before_def less_eq_prod_def)

lemma sorted_wrt_ordered_numbers:
  "sorted_wrt listed_before (ordered_numbers country_id is_pro db)"
proof -
  have "sorted (map order_key (ordered_numbers country_id is_pro db))"
    by (simp add: ordered_numbers_def)
  then have "sorted_wrt (\<lambda>a b. order_key a \<le> order_key b) (ordered_numbers country_id is_pro db)"
    by (simp add: sorted_map)
  then show ?thesis
    by (rule sorted_wrt_mono_rel [rotated]) (simp add: order_key_listed_before)
qed

lemma sorted_wrt_sql_limit_offset:
  "sorted_wrt R xs \<Longrightarrow> sorted_wrt R (sql_limit_offset n k xs)"
  by (simp add: sql_limit_offset_def Let_def)

lemma set_sql_limit_offset: "set (sql_limit_offset n k xs) \<subseteq> set xs"
  by (auto simp: sql_limit_offset_def Let_def dest: in_set_takeD in_set_dropD)

lemma sql_limit_offset_page:
  "0 \<le> n \<Longrightarrow> sql_limit_offset n k xs = take (nat n) (drop (nat k) xs)"
  by (simp add: sql_limit_offset_def)

text \<open>
  C8. Without a database failure, \<open>get_numbers_for_country\<close> returns the columns of the
  rows that LIMIT \<open>limit\<close> OFFSET \<open>(page - 1) * limit\<close> cuts out of the ordered listing of
  the country; for a page from 1 on and a page size that is not negative these are the
  \<open>limit\<close> rows after the first \<open>(page - 1) * limit\<close>. The page and the whole listing
  are ordered premium first, then most recently added first. The listing of a PRO caller
  holds exactly the active numbers of the country, that of a standard caller exactly
  those that are not premium, so a standard caller is never shown a premium number.
\<close>

theorem listing_ordered_and_filtered:
  "get_numbers_for_country None country_id is_pro page limit db =
     map listed (sql_limit_offset limit ((page - 1) * limit) (ordered_numbers country_id is_pro db))
   \<and> (1 \<le> page \<and> 0 \<le> limit \<longrightarrow>
        get_numbers_for_country None country_id is_pro page limit db =
          map listed (take (nat limit) (drop (nat (page - 1) * nat limit)
            (ordered_numbers country_id is_pro db))))
   \<and> sorted_wrt listed_before
        (sql_limit_offset limit ((page - 1) * limit) (ordered_numbers country_id is_pro db))
   \<and> sorted_wrt listed_before (ordered_numbers country_id is_pro db)
   \<and> mset (ordered_numbers country_id True db) =
        mset (filter (\<lambda>r. num_country_id r = country_id \<and> num_is_active r) (numbers db))
   \<and> mset (ordered_numbers country_id False db) =
        mset (filter (\<lambda>r. num_country_id r = country_id \<and> num_is_active r \<and> \<not> num_is_premium r)
          (numbers db))
   \<and> (\<not> is_pro \<longrightarrow>
        (\<forall>n \<in> set (get_numbers_for_country None country_id is_pro page limit db).
           \<not> ln_is_premium n))"
proof -
  have eq: "get_numbers_for_country None country_id is_pro page limit db =
     map listed (sql_limit_offset limit ((page - 1) * limit) (ordered_numbers country_id is_pro db))"
    by (simp add: get_numbers_for_country_def raises_at_def applied_at_def execute_def)
  have page: "get_numbers_for_country None country_id is_pro page limit db =
          map listed (take (nat limit) (drop (nat (page - 1) * nat limit)
            (ordered_numbers country_id is_pro db)))" if "1 \<le> page" "0 \<le> limit"
    using that by (simp add: eq sql_limit_offset_page nat_mult_distrib)
  have std: "\<not> ln_is_premium n"
    if "\<not> is_pro" "n \<in> set (get_numbers_for_country None country_id is_pro page limit db)" for n
  proof -
    from that(2) obtain r where r: "n = listed r"
      "r \<in> set (sql_limit_offset limit ((page - 1) * limit) (ordered_numbers country_id is_pro db))"
      by (auto simp: eq)
    from r(2) have "r \<in> set (ordered_numbers country_id is_pro db)"
      by (rule subsetD [OF set_sql_limit_offset])
    with that(1) have "\<not> num_is_premium r"
      by (simp add: ordered_numbers_def listable_def)
    with r(1) show ?thesis by (simp add: listed_def)
  qed
  have pro: "mset (ordered_numbers country_id True db) =
        mset (filter (\<lambda>r. num_country_id r = country_id \<and> num_is_active r) (numbers db))"
    by (simp add: ordered_numbers_def listable_def)
  have standard: "mset (ordered_numbers country_id False db) =
        mset (filter (\<lambda>r. num_country_id r = country_id \<and> num_is_active r \<and> \<not> num_is_premium r)
          (numbers db))"
    by (simp add: ordered_numbers_def listable_def)
  show ?thesis
    using eq page std pro standard sorted_wrt_ordered_numbers [of country_id is_pro db]
      sorted_wrt_sql_limit_offset [OF sorted_wrt_ordered_numbers, of limit "(page - 1) * limit" country_id is_pro db]
    by blast
qed

lemma ordered_listing_example:
  "ordered_numbers 1 True listing_example =
     [listing_number 2 1 True 5, listing_number 3 1 False 20, listing_number 1 1 False 10]"
  "ordered_numbers 1 False listing_example =
     [listing_number 3 1 False 20, listing_number 1 1 False 10]"
  by (simp_all add: ordered_numbers_def listing_example_def listing_number_def listable_def
      order_key_def)

theorem listing_ordered_and_filtered_witness:
  "map ln_id (get_numbers_for_country None 1 True 1 2 listing_example) = [2, 3]
   \<and> map ln_id (get_numbers_for_country None 1 True 2 2 listing_example) = [1]
   \<and> map ln_id (get_numbers_for_country None 1 False 1 2 listing_example) = [3, 1]
   \<and> map ln_is_premium (get_numbers_for_country None 1 False 1 2 listing_example) = [False, False]"
  using listing_ordered_and_filtered [of 1 True 1 2 listing_example]
    listing_ordered_and_filtered [of 1 True 2 2 listing_example]
    listing_ordered_and_filtered [of 1 False 1 2 listing_example]
  by (simp add: ordered_listing_example listed_def listing_number_def sql_limit_offset_def)

section \<open>Counting the numbers of a country\<close>

text \<open>
  The COUNT query counts every active number of the country, premium or not: as many as
  the listing of a PRO caller holds, and as many as the listing of a standard caller plus
  the active premium numbers of the country.
\<close>

lemma count_query_ignores_tier:
  "select_count_numbers country_id db = int (length (ordered_numbers country_id True db))"
  "select_count_numbers country_id db =
     int (length (ordered_numbers country_id False db)) +
     int (length (filter (\<lambda>r. num_country_id r = country_id \<and> num_is_active r \<and> num_is_premium r)
            (numbers db)))"
proof -
  show "select_count_numbers country_id db = int (length (ordered_numbers country_id True db))"
    by (simp add: select_count_numbers_def ordered_numbers_def listable_def [abs_def])
  have "length (filter (\<lambda>r. num_country_id r = country_id \<and> num_is_active r) xs) =
      length (filter (listable country_id False) xs) +
      length (filter (\<lambda>r. num_country_id r = country_id \<and> num_is_active r \<and> num_is_premium r) xs)"
    for xs
    by (induction xs) (auto simp: listable_def)
  then show "select_count_numbers country_id db =
     int (length (ordered_numbers country_id False db)) +
     int (length (filter (\<lambda>r. num_country_id r = country_id \<and> num_is_active r \<and> num_is_premium r)
            (numbers db)))"
    by (simp add: select_count_numbers_def ordered_numbers_def)
qed

text \<open>
  C9, evaluated where the claim fails. Whenever the COUNT query succeeds,
  \<open>get_total_numbers_count\<close> raises \<open>KeyError\<close>: the dictionary that \<open>fetchone\<close> returns has
  the single key "COUNT(id)" and is read under the integer key 0. So no count, and no
  number of pages, is ever computed from the query; \<open>numbers_list_page\<close> raises as well.
  In the example the query yields 3 for country 1 while a standard caller is listed 2
  numbers.
\<close>

theorem total_count_raises_key_error:
  "get_total_numbers_count None country_id db = Inl KeyError
   \<and> numbers_list_page None country_id is_pro page db = Inl KeyError
   \<and> fetchone_count None 1 listing_example = Some [(StrKey ''COUNT(id)'', 3)]
   \<and> length (get_numbers_for_country None 1 False 1 NUMBERS_PER_PAGE listing_example) = 2"
proof -
  have "get_total_numbers_count None country_id db = Inl KeyError"
    by (simp add: get_total_numbers_count_def fetchone_count_def raises_at_def applied_at_def execute_def)
  moreover from this have "numbers_list_page None country_id is_pro page db = Inl KeyError"
    by (simp add: numbers_list_page_def Let_def shift_fault_def)
  moreover have "fetchone_count None 1 listing_example = Some [(StrKey ''COUNT(id)'', 3)]"
    by (simp add: fetchone_count_def raises_at_def applied_at_def execute_def select_count_numbers_def listing_example_def
        listing_number_def)
  moreover have "length (get_numbers_for_country None 1 False 1 NUMBERS_PER_PAGE listing_example) = 2"
    by (simp add: get_numbers_for_country_def raises_at_def applied_at_def execute_def sql_limit_offset_def
        NUMBERS_PER_PAGE_def ordered_numbers_def listing_example_def listing_number_def
        listable_def)
  ultimately show ?thesis by simp
qed

section \<open>The codes of the simulated verification API\<close>

lemma digit_char_decimal: "d < 10 \<Longrightarrow> digit_char d \<in> set ''0123456789''"
  unfolding digit_char_def by (rule nth_mem) simp

lemma str_nat_decimal: "set (str_nat n) \<subseteq> set ''0123456789''"
proof (induction n rule: str_nat.induct)
  case (1 n)
  show ?case
  proof (cases "n < 10")
    case True
    then show ?thesis
      using digit_char_decimal [of n] by (subst str_nat.simps) simp
  next
    case False
    then have "set (str_nat (n div 10)) \<subseteq> set ''0123456789''"
      using "1" by simp
    moreover have "digit_char (n mod 10) \<in> set ''0123456789''"
      by (rule digit_char_decimal) simp
    ultimately show ?thesis
      using False by (subst str_nat.simps) simp
  qed
qed

lemma length_str_nat: "10 ^ k \<le> n \<Longrightarrow> n < 10 ^ Suc k \<Longrightarrow> length (str_nat n) = Suc k"
proof (induction k arbitrary: n)
  case 0
  then show ?case by (subst str_nat.simps) simp
next
  case (Suc k)
  from Suc.prems have big: "\<not> n < 10"
  proof -
    have "(10::nat) \<le> 10 ^ Suc k"
      using one_le_power [of "10::nat" k] by simp
    with Suc.prems(1) show ?thesis by linarith
  qed
  from Suc.prems have "10 ^ k \<le> n div 10" "n div 10 < 10 ^ Suc k"
    by (simp_all add: less_mult_imp_div_less div_le_mono2 le_div_geq mult.commute
        Suc_leI div_greater_zero_iff less_eq_div_iff_mult_less_eq)
  then have "length (str_nat (n div 10)) = Suc k"
    by (rule Suc.IH)
  with big show ?case
    by (subst str_nat.simps) simp
qed

lemma str_int_six_digits:
  assumes "100000 \<le> d" and "d \<le> 999999"
  shows "length (str_int d) = 6" and "set (str_int d) \<subseteq> set ''0123456789''"
    and "str_int d \<noteq> ''EXPIRED''" and "str_int d \<noteq> []"
proof -
  from assms have eq: "str_int d = str_nat (nat d)"
    by (simp add: str_int_def)
  from assms have "10 ^ 5 \<le> nat d" "nat d < 10 ^ Suc 5"
    by simp_all
  then have "length (str_nat (nat d)) = Suc 5"
    by (rule length_str_nat)
  then show len: "length (str_int d) = 6"
    by (simp add: eq)
  show "set (str_int d) \<subseteq> set ''0123456789''"
    by (simp only: eq str_nat_decimal)
  from len show "str_int d \<noteq> ''EXPIRED''" by auto
  from len show "str_int d \<noteq> []" by auto
qed

text \<open>
  C10. \<open>random.randint(100000, 999999)\<close> yields an integer \<open>d\<close> in that range. A code the
  simulated API delivers is then the decimal string of \<open>d\<close>: six decimal digits, not empty
  and not the sentinel "EXPIRED". So when \<open>check_for_code\<close> returns "EXPIRED" the API has
  not been consulted (it is the expiry branch), and when it returns any other string the
  API has been consulted and the string is the delivered code; \<open>None\<close> is the third value.
\<close>

theorem delivered_code_never_sentinel:
  assumes "100000 \<le> d" and "d \<le> 999999"
  shows "(simulate_api_check u d api_request_id = Some c \<longrightarrow>
            c = str_int d \<and> length c = 6 \<and> set c \<subseteq> set ''0123456789''
            \<and> c \<noteq> ''EXPIRED'' \<and> c \<noteq> [])
       \<and> (fst (check_for_code f now ts u d user_id number_id db) = Inr (Some ''EXPIRED'') \<longrightarrow>
            snd (snd (check_for_code f now ts u d user_id number_id db)) = [])
       \<and> (fst (check_for_code f now ts u d user_id number_id db) = Inr (Some s)
            \<and> s \<noteq> ''EXPIRED'' \<longrightarrow>
            s = str_int d \<and> simulate_api_check u d api_request_id = Some s
            \<and> snd (snd (check_for_code f now ts u d user_id number_id db)) \<noteq> [])"
proof -
  note six = str_int_six_digits [OF assms]
  have deliv: "c = str_int d \<and> length c = 6 \<and> set c \<subseteq> set ''0123456789''
      \<and> c \<noteq> ''EXPIRED'' \<and> c \<noteq> []"
    if "simulate_api_check u d api_request_id = Some c"
    using that six by (auto simp: simulate_api_check_def split: if_splits)
  have expired: "snd (snd (check_for_code f now ts u d user_id number_id db)) = []"
    if "fst (check_for_code f now ts u d user_id number_id db) = Inr (Some ''EXPIRED'')"
    using that six(3)
    by (auto simp: check_for_code_def simulate_api_check_def Let_def
        split: option.splits if_splits prod.splits sum.splits)
  have got: "s = str_int d \<and> simulate_api_check u d api_request_id = Some s
      \<and> snd (snd (check_for_code f now ts u d user_id number_id db)) \<noteq> []"
    if "fst (check_for_code f now ts u d user_id number_id db) = Inr (Some s)" "s \<noteq> ''EXPIRED''"
    using that
    by (auto simp: check_for_code_def simulate_api_check_def Let_def
        split: option.splits if_splits prod.splits sum.splits)
  show ?thesis
    using deliv expired got by blast
qed

theorem delivered_code_never_sentinel_witness:
  "simulate_api_check (1/10) 123456 ''a'' = Some ''123456''
   \<and> fst (check_for_code None 100000000 100 (1/10) 123456 7 1 held_example) = Inr (Some ''123456'')
   \<and> snd (snd (check_for_code None 100000000 100 (1/10) 123456 7 1 held_example)) = [''a'']
   \<and> fst (check_for_code None 400000000 400 (1/10) 123456 7 1 held_example) = Inr (Some ''EXPIRED'')
   \<and> snd (snd (check_for_code None 400000000 400 (1/10) 123456 7 1 held_example)) = []"
proof -
  have d: "(100000::int) \<le> 123456" "(123456::int) \<le> 999999"
    by simp_all
  have str: "str_int 123456 = ''123456''"
    by (simp add: str_int_def str_nat.simps digit_char_def)
  have poll: "fst (check_for_code None 100000000 100 (1/10) 123456 7 1 held_example) =
      Inr (Some ''123456'')"
    by (simp add: check_for_code_def raises_at_def applied_at_def execute_def select_pending_request_def held_example_def
        example_request_def is_pending_for_def strptime_def simulate_api_check_def str
        finalize_number_request_def shift_fault_def Let_def)
  have late: "fst (check_for_code None 400000000 400 (1/10) 123456 7 1 held_example) =
      Inr (Some ''EXPIRED'')"
    by (simp add: check_for_code_def raises_at_def applied_at_def execute_def select_pending_request_def held_example_def
        example_request_def is_pending_for_def strptime_def
        finalize_number_request_def shift_fault_def Let_def)
  have asked: "snd (snd (check_for_code None 100000000 100 (1/10) 123456 7 1 held_example)) = [''a'']"
    by (simp add: check_for_code_def raises_at_def applied_at_def execute_def select_pending_request_def held_example_def
        example_request_def is_pending_for_def strptime_def simulate_api_check_def str
        finalize_number_request_def shift_fault_def Let_def)
  show ?thesis
    using delivered_code_never_sentinel [OF d, of "1/10" "''a''" "''123456''" None 100000000 100 7 1 held_example "''123456''"]
      delivered_code_never_sentinel [OF d, of "1/10" "''a''" "''123456''" None 400000000 400 7 1 held_example "''123456''"]
      poll late asked
    by (simp add: simulate_api_check_def str)
qed

end
